theory Spec2Isabelle
  imports Main "HOL-Library.AList" "HOL-Library.FSet" "HOL-Library.Sublist"
begin

section \<open>Python exceptions\<close>

text \<open>
  Every \<^verbatim>\<open>raise\<close> and failed \<^verbatim>\<open>assert\<close> of the two modules is a value of this type.
  \<open>OutOfFuel\<close> is not a Python exception: it is what the fuel-bounded model of the
  matcher's mutual recursion returns when the call depth exceeds the fuel.
\<close>

datatype error =
    AssertionError
  | KeyError
  | AttributeError string
  | NotImplementedError
  | TypeError
  | ValueError
  | OutOfFuel

section \<open>pytd.py: the declared-type AST\<close>

subsection \<open>Nodes\<close>

text \<open>
  The declaration nodes that carry types are polymorphic in the type of types, so that
  \<open>FunctionType\<close> can hold a function node whose signatures mention types again.
  \<open>pytd_Function\<close>, \<open>pytd_Class\<close> and \<open>pytd_TypeParameter\<close> are \<^verbatim>\<open>pytd.Function\<close>,
  \<^verbatim>\<open>pytd.Class\<close> and \<^verbatim>\<open>pytd.TypeParameter\<close>; the plain names are used for the classes of the
  same name in \<^verbatim>\<open>abstract\<close>, which the matcher works on.
\<close>

datatype 't Parameter =
  Parameter (Parameter_name: string) (Parameter_type: 't) (kwonly: bool) (optional: bool)
    (mutated_type: "'t option")

datatype 't TemplateItem = TemplateItem (TemplateItem_type_param: 't)

datatype 't Signature =
  Signature (params: "'t Parameter list") (starargs: "'t Parameter option")
    (starstarargs: "'t Parameter option") (return_type: 't) (exceptions: "'t list")
    (Signature_template: "'t TemplateItem list")

datatype 't pytd_Function =
    pytd_Function (Function_name: string) (signatures: "'t Signature list") (kind: string)
  | ExternalFunction (Function_name: string) (signatures: "'t Signature list") (kind: string)

datatype Type =
    NamedType string
  | ClassType string
  | FunctionType string "Type pytd_Function"
  | AnythingType
  | NothingType
  | pytd_TypeParameter (TypeParameter_name: string) (scope: "string option")
  | UnionType (type_list: "Type list")
  | GenericType Type "Type list"
  | HomogeneousContainerType Type "Type list"
  | TupleType Type "Type list"

datatype Constant = Constant (Constant_name: string) (Constant_type: Type)

datatype Alias = Alias (Alias_name: string) (Alias_type: "Type + Constant")

datatype pytd_Class =
  pytd_Class (Class_name: string) (metaclass: "Type option") (parents: "(pytd_Class + Type) list")
    (methods: "Type pytd_Function list") (constants: "Constant list")
    (Class_template: "Type TemplateItem list")

datatype TypeDeclUnit =
  TypeDeclUnit (TypeDeclUnit_name: "string option") (TypeDeclUnit_constants: "Constant list")
    (type_params: "Type list") (TypeDeclUnit_classes: "pytd_Class list")
    (TypeDeclUnit_functions: "Type pytd_Function list") (TypeDeclUnit_aliases: "Alias list")

text \<open>\<^verbatim>\<open>TypeParameter.full_name\<close>\<close>

definition TypeParameter_full_name :: "string \<Rightarrow> string option \<Rightarrow> string" where
  "TypeParameter_full_name nm sc = (case sc of None \<Rightarrow> [] | Some s \<Rightarrow> s @ ''.'') @ nm"

subsection \<open>Equality and hashing of nodes\<close>

text \<open>
  Modelled from the spec: \<^verbatim>\<open>pytd/parse/node.py\<close> is not part of the sources. The spec calls
  the AST ``an immutable, structurally-hashable tree'', and \<^verbatim>\<open>pytd.py\<close> says of a node's
  \<^verbatim>\<open>__eq__\<close> that it is ``tuple equality + requiring the two classes be the same''.
  \<open>Node_key\<close> is what \<^verbatim>\<open>==\<close> and \<^verbatim>\<open>hash\<close> see of a node: its class and the keys of its
  fields, where a \<open>UnionType\<close> shows the frozenset of its members (its own \<^verbatim>\<open>__eq__\<close> and
  \<^verbatim>\<open>__hash__\<close>, below). Two nodes are \<^verbatim>\<open>==\<close> iff their keys are equal.
\<close>

datatype key =
    KNamedType string
  | KClassType string
  | KFunctionType string "key pytd_Function"
  | KAnythingType
  | KNothingType
  | KTypeParameter string "string option"
  | KUnionType "key fset"
  | KGenericType key "key list"
  | KHomogeneousContainerType key "key list"
  | KTupleType key "key list"

primrec Node_key :: "Type \<Rightarrow> key" where
  "Node_key (NamedType n) = KNamedType n"
| "Node_key (ClassType n) = KClassType n"
| "Node_key (FunctionType n f) = KFunctionType n (map_pytd_Function Node_key f)"
| "Node_key AnythingType = KAnythingType"
| "Node_key NothingType = KNothingType"
| "Node_key (pytd_TypeParameter n s) = KTypeParameter n s"
| "Node_key (UnionType ts) = KUnionType (fset_of_list (map Node_key ts))"
| "Node_key (GenericType b ps) = KGenericType (Node_key b) (map Node_key ps)"
| "Node_key (HomogeneousContainerType b ps) =
     KHomogeneousContainerType (Node_key b) (map Node_key ps)"
| "Node_key (TupleType b ps) = KTupleType (Node_key b) (map Node_key ps)"

definition Node_eq :: "Type \<Rightarrow> Type \<Rightarrow> bool" where
  "Node_eq a b = (Node_key a = Node_key b)"

definition frozenset :: "Type list \<Rightarrow> key fset" where
  "frozenset ts = fset_of_list (map Node_key ts)"

subsection \<open>UnionType\<close>

definition isinstance_UnionType :: "Type \<Rightarrow> bool" where
  "isinstance_UnionType t = (case t of UnionType ts \<Rightarrow> True | _ \<Rightarrow> False)"

text \<open>
  \<^verbatim>\<open>itertools.chain.from_iterable(t.type_list if isinstance(t, UnionType) else [t] ...)\<close>:
  one level of flattening.
\<close>

definition flattened :: "Type list \<Rightarrow> Type list" where
  "flattened args =
     concat (map (\<lambda>t. case t of UnionType ts \<Rightarrow> ts | _ \<Rightarrow> [t]) args)"

text \<open>
  \<^verbatim>\<open>collections.OrderedDict.fromkeys\<close>: the keys in the order of their first insertion; a key
  that is \<^verbatim>\<open>==\<close> to one already present is dropped.
\<close>

fun fromkeys_loop :: "Type list \<Rightarrow> Type list \<Rightarrow> Type list" where
  "fromkeys_loop d [] = d"
| "fromkeys_loop d (x # xs) =
     fromkeys_loop (if Node_key x \<in> set (map Node_key d) then d else d @ [x]) xs"

definition fromkeys :: "Type list \<Rightarrow> Type list" where
  "fromkeys xs = fromkeys_loop [] xs"

text \<open>\<^verbatim>\<open>UnionType.__new__\<close>\<close>

definition UnionType_new :: "Type list \<Rightarrow> error + Type" where
  "UnionType_new args =
     (if args = [] then Inl AssertionError
      else Inr (UnionType (fromkeys (flattened args))))"

text \<open>
  \<^verbatim>\<open>UnionType.__eq__\<close>. For an \<open>other\<close> that is not a \<open>UnionType\<close> the method returns
  \<^verbatim>\<open>NotImplemented\<close>, Python asks \<open>other\<close>, whose node equality requires the same class:
  the comparison is false.
\<close>

definition UnionType_eq :: "Type \<Rightarrow> Type \<Rightarrow> bool" where
  "UnionType_eq self other =
     (if isinstance_UnionType other
      then frozenset (type_list self) = frozenset (type_list other)
      else False)"

text \<open>
  \<^verbatim>\<open>UnionType.__hash__\<close>. Python's hash of a frozenset is the parameter \<open>hash\<close>.
\<close>

definition UnionType_hash :: "(key fset \<Rightarrow> int) \<Rightarrow> Type \<Rightarrow> int" where
  "UnionType_hash hash self = hash (frozenset (type_list self))"

text \<open>
  What \<^verbatim>\<open>UnionType.__new__\<close> establishes, as a predicate on a member of its argument: a
  member that is itself a union has come out of the constructor, so it is non-empty and
  none of its members is a union.
\<close>

definition constructed :: "Type \<Rightarrow> bool" where
  "constructed t =
     (case t of
        UnionType ts \<Rightarrow> ts \<noteq> [] \<and> list_all (\<lambda>m. \<not> isinstance_UnionType m) ts
      | _ \<Rightarrow> True)"

subsection \<open>Name lookup on TypeDeclUnit and Class\<close>

text \<open>
  What a lookup returns: one of the nodes a module or a class declares.
\<close>

datatype item =
    ItemTypeParameter Type
  | ItemConstant Constant
  | ItemFunction "Type pytd_Function"
  | ItemClass pytd_Class
  | ItemAlias Alias

text \<open>\<^verbatim>\<open>x.name\<close> of a declared node; for a type parameter the table uses \<^verbatim>\<open>x.full_name\<close>.\<close>

fun item_name :: "item \<Rightarrow> string" where
  "item_name (ItemTypeParameter t) =
     (case t of pytd_TypeParameter n s \<Rightarrow> TypeParameter_full_name n s | _ \<Rightarrow> [])"
| "item_name (ItemConstant c) = Constant_name c"
| "item_name (ItemFunction f) = Function_name f"
| "item_name (ItemClass c) = Class_name c"
| "item_name (ItemAlias a) = Alias_name a"

text \<open>
  A node object is the immutable node together with the attribute \<^verbatim>\<open>_name2item\<close> that
  \<^verbatim>\<open>Lookup\<close> sets on it: \<open>None\<close> while the attribute does not exist. The dictionary is an
  association list in insertion order.
\<close>

record 'n node_object =
  node :: 'n
  name2item :: "(string \<times> item) list option"

text \<open>\<^verbatim>\<open>self._name2item[name]\<close> on an existing table.\<close>

definition getitem :: "(string \<times> item) list \<Rightarrow> string \<Rightarrow> error + item" where
  "getitem d name = (case map_of d name of None \<Rightarrow> Inl KeyError | Some x \<Rightarrow> Inr x)"

text \<open>
  The second loop of \<^verbatim>\<open>TypeDeclUnit.Lookup\<close>. It works on the table that is already stored
  in the attribute, so the table it has reached is returned also when it raises.
\<close>

fun TypeDeclUnit_fill ::
  "item list \<Rightarrow> (string \<times> item) list \<Rightarrow> (error + unit) \<times> (string \<times> item) list" where
  "TypeDeclUnit_fill [] d = (Inr (), d)"
| "TypeDeclUnit_fill (x # xs) d =
     (if item_name x \<in> fst ` set d
      then (Inl (AttributeError (''Duplicate name '' @ item_name x)), d)
      else TypeDeclUnit_fill xs (AList.update (item_name x) x d))"

definition TypeDeclUnit_items :: "TypeDeclUnit \<Rightarrow> item list" where
  "TypeDeclUnit_items u =
     map ItemConstant (TypeDeclUnit_constants u) @ map ItemFunction (TypeDeclUnit_functions u)
     @ map ItemClass (TypeDeclUnit_classes u) @ map ItemAlias (TypeDeclUnit_aliases u)"

definition TypeDeclUnit_Lookup ::
  "TypeDeclUnit node_object \<Rightarrow> string \<Rightarrow> (error + item) \<times> TypeDeclUnit node_object" where
  "TypeDeclUnit_Lookup self name =
     (case name2item self of
        Some d \<Rightarrow> (getitem d name, self)
      | None \<Rightarrow>
          (let d0 = foldl (\<lambda>d x. AList.update (item_name x) x d) []
                      (map ItemTypeParameter (type_params (node self)))
           in case TypeDeclUnit_fill (TypeDeclUnit_items (node self)) d0 of
                (Inl e, d) \<Rightarrow> (Inl e, self\<lparr>name2item := Some d\<rparr>)
              | (Inr u, d) \<Rightarrow> (getitem d name, self\<lparr>name2item := Some d\<rparr>)))"

definition Class_items :: "pytd_Class \<Rightarrow> item list" where
  "Class_items c = map ItemFunction (methods c) @ map ItemConstant (constants c)"

definition Class_Lookup ::
  "pytd_Class node_object \<Rightarrow> string \<Rightarrow> (error + item) \<times> pytd_Class node_object" where
  "Class_Lookup self name =
     (case name2item self of
        Some d \<Rightarrow> (getitem d name, self)
      | None \<Rightarrow>
          (let d = foldl (\<lambda>d x. AList.update (item_name x) x d) [] (Class_items (node self))
           in (getitem d name, self\<lparr>name2item := Some d\<rparr>)))"

section \<open>The value model the matcher consumes\<close>

text \<open>
  Modelled from the spec: the modules \<^verbatim>\<open>abstract\<close>, \<^verbatim>\<open>utils\<close>, \<^verbatim>\<open>pep484\<close> and the typegraph
  (variables, bindings, views) are not part of the sources. The datatypes below hold the
  kinds of value the spec lists (``Class, Instance, ParameterizedClass, TupleClass, Union,
  TypeParameter-as-value, Unknown, Unsolvable, Nothing/Empty, Module,
  Function/BoundFunction/ClassMethod/StaticMethod, SuperInstance, Tuple'') with the
  attributes \<^verbatim>\<open>matcher.py\<close> reads from them. \<open>Other\<close> stands for every kind the matcher
  does not know. A variable is its identity and the data of its candidate bindings
  (``a value may have multiple simultaneous candidate bindings''); a binding is its data,
  its variable and its position there.

  The keys of \<^verbatim>\<open>type_parameters\<close> are names, and for a \<open>TupleClass\<close> also the slot
  numbers: the matcher reads \<^verbatim>\<open>type_parameters[i]\<close> and \<^verbatim>\<open>type_parameters[abstract.T]\<close>.
\<close>

datatype param_key = Name string | Index nat

datatype val =
    Class nat string "var option" "string list"
  | ParameterizedClass val "(param_key \<times> val) list"
  | TupleClass val "(param_key \<times> val) list"
  | abstract_Union "val list"
  | TypeParameter string
  | Unknown
  | Unsolvable
  | Empty
  | Nothing
  | Instance "var option" "(string \<times> var) list"
  | Tuple "var list" "var option" "(string \<times> var) list"
  | Module string
  | Function string
  | BoundFunction string
  | ClassMethod string
  | StaticMethod string
  | SuperInstance val val
  | Other string
and var = Variable (vid: nat) (bindings: "val list")

datatype binding = Binding (data: val) (variable: var) (index: nat)

text \<open>\<^verbatim>\<open>variable.bindings\<close> as binding objects.\<close>

definition bindings_of :: "var \<Rightarrow> binding list" where
  "bindings_of v = map (\<lambda>(i, d). Binding d v i) (enumerate 0 (bindings v))"

text \<open>\<^verbatim>\<open>abstract.T\<close>, the name of the type parameter of the standard containers.\<close>

definition T :: string where
  "T = ''T''"

subsection \<open>isinstance\<close>

text \<open>
  \<open>TupleClass\<close> is a \<open>ParameterizedClass\<close>, which is a \<open>Class\<close>; a \<open>Tuple\<close> is an instance
  (a \<open>SimpleAbstractValue\<close>). The other kinds are disjoint, as the spec lists them.
\<close>

definition isinstance_Class :: "val \<Rightarrow> bool" where
  "isinstance_Class v =
     (case v of Class i n c t \<Rightarrow> True | ParameterizedClass b p \<Rightarrow> True
      | TupleClass b p \<Rightarrow> True | _ \<Rightarrow> False)"

definition isinstance_ParameterizedClass :: "val \<Rightarrow> bool" where
  "isinstance_ParameterizedClass v =
     (case v of ParameterizedClass b p \<Rightarrow> True | TupleClass b p \<Rightarrow> True | _ \<Rightarrow> False)"

definition isinstance_TupleClass :: "val \<Rightarrow> bool" where
  "isinstance_TupleClass v = (case v of TupleClass b p \<Rightarrow> True | _ \<Rightarrow> False)"

definition isinstance_Union :: "val \<Rightarrow> bool" where
  "isinstance_Union v = (case v of abstract_Union os \<Rightarrow> True | _ \<Rightarrow> False)"

definition isinstance_TypeParameter :: "val \<Rightarrow> bool" where
  "isinstance_TypeParameter v = (case v of TypeParameter n \<Rightarrow> True | _ \<Rightarrow> False)"

definition isinstance_Unknown :: "val \<Rightarrow> bool" where
  "isinstance_Unknown v = (v = Unknown)"

definition isinstance_Unsolvable :: "val \<Rightarrow> bool" where
  "isinstance_Unsolvable v = (v = Unsolvable)"

definition isinstance_Empty :: "val \<Rightarrow> bool" where
  "isinstance_Empty v = (v = Empty)"

definition isinstance_Nothing :: "val \<Rightarrow> bool" where
  "isinstance_Nothing v = (v = Nothing)"

definition isinstance_SimpleAbstractValue :: "val \<Rightarrow> bool" where
  "isinstance_SimpleAbstractValue v =
     (case v of Instance c p \<Rightarrow> True | Tuple e c p \<Rightarrow> True | _ \<Rightarrow> False)"

definition isinstance_Tuple :: "val \<Rightarrow> bool" where
  "isinstance_Tuple v = (case v of Tuple e c p \<Rightarrow> True | _ \<Rightarrow> False)"

definition isinstance_Module :: "val \<Rightarrow> bool" where
  "isinstance_Module v = (case v of Module n \<Rightarrow> True | _ \<Rightarrow> False)"

definition isinstance_Function_or_BoundFunction :: "val \<Rightarrow> bool" where
  "isinstance_Function_or_BoundFunction v =
     (case v of Function n \<Rightarrow> True | BoundFunction n \<Rightarrow> True | _ \<Rightarrow> False)"

definition isinstance_ClassMethod :: "val \<Rightarrow> bool" where
  "isinstance_ClassMethod v = (case v of ClassMethod n \<Rightarrow> True | _ \<Rightarrow> False)"

definition isinstance_StaticMethod :: "val \<Rightarrow> bool" where
  "isinstance_StaticMethod v = (case v of StaticMethod n \<Rightarrow> True | _ \<Rightarrow> False)"

definition isinstance_SuperInstance :: "val \<Rightarrow> bool" where
  "isinstance_SuperInstance v = (case v of SuperInstance c obj \<Rightarrow> True | _ \<Rightarrow> False)"

text \<open>
  \<^verbatim>\<open>abstract.AMBIGUOUS_OR_EMPTY\<close>: the ambiguous kinds \<open>Unknown\<close> and \<open>Unsolvable\<close>, and
  \<open>Empty\<close>. \<open>Nothing\<close> is not in it: \<^verbatim>\<open>_match_type_against_type\<close> has a branch of its own
  for a \<open>Nothing\<close> value, after the test for \<^verbatim>\<open>AMBIGUOUS_OR_EMPTY\<close>.
\<close>

definition AMBIGUOUS_OR_EMPTY :: "val \<Rightarrow> bool" where
  "AMBIGUOUS_OR_EMPTY v = (v = Unknown \<or> v = Unsolvable \<or> v = Empty)"

subsection \<open>Attributes\<close>

text \<open>
  \<^verbatim>\<open>full_name\<close>. A parameterized class has the name of its base class; a value that is not
  a class has the name of its kind.
\<close>

fun full_name :: "val \<Rightarrow> string" where
  "full_name (Class i n c t) = n"
| "full_name (ParameterizedClass b p) = full_name b"
| "full_name (TupleClass b p) = full_name b"
| "full_name (abstract_Union os) = ''Union''"
| "full_name (TypeParameter n) = n"
| "full_name Unknown = ''?''"
| "full_name Unsolvable = ''?''"
| "full_name Empty = ''empty''"
| "full_name Nothing = ''nothing''"
| "full_name (Instance c p) = ''<instance>''"
| "full_name (Tuple e c p) = ''tuple''"
| "full_name (Module n) = n"
| "full_name (Function n) = n"
| "full_name (BoundFunction n) = n"
| "full_name (ClassMethod n) = n"
| "full_name (StaticMethod n) = n"
| "full_name (SuperInstance c obj) = ''super''"
| "full_name (Other n) = n"

text \<open>\<^verbatim>\<open>cls\<close>: the variable holding the class of an instance (of a class: its metaclass).\<close>

fun cls :: "val \<Rightarrow> var option" where
  "cls (Class i n c t) = c"
| "cls (ParameterizedClass b p) = cls b"
| "cls (TupleClass b p) = cls b"
| "cls (Instance c p) = c"
| "cls (Tuple e c p) = c"
| "cls v = None"

text \<open>\<^verbatim>\<open>get_class()\<close>: ``get declaring class''.\<close>

definition get_class :: "val \<Rightarrow> var option" where
  "get_class v = cls v"

text \<open>\<^verbatim>\<open>template\<close>: the names of the type parameters a class declares, in order.\<close>

fun template :: "val \<Rightarrow> string list" where
  "template (Class i n c t) = t"
| "template (ParameterizedClass b p) = template b"
| "template (TupleClass b p) = template b"
| "template v = []"

definition base_cls :: "val \<Rightarrow> val" where
  "base_cls v = (case v of ParameterizedClass b p \<Rightarrow> b | TupleClass b p \<Rightarrow> b | _ \<Rightarrow> v)"

definition type_parameters :: "val \<Rightarrow> (param_key \<times> val) list" where
  "type_parameters v = (case v of ParameterizedClass b p \<Rightarrow> p | TupleClass b p \<Rightarrow> p | _ \<Rightarrow> [])"

definition instance_type_parameters :: "val \<Rightarrow> (string \<times> var) list" where
  "instance_type_parameters v = (case v of Instance c p \<Rightarrow> p | Tuple e c p \<Rightarrow> p | _ \<Rightarrow> [])"

definition pyval :: "val \<Rightarrow> var list" where
  "pyval v = (case v of Tuple e c p \<Rightarrow> e | _ \<Rightarrow> [])"

definition options :: "val \<Rightarrow> val list" where
  "options v = (case v of abstract_Union os \<Rightarrow> os | _ \<Rightarrow> [])"

definition name_of :: "val \<Rightarrow> string" where
  "name_of v = (case v of TypeParameter n \<Rightarrow> n | _ \<Rightarrow> full_name v)"

definition super_cls :: "val \<Rightarrow> val" where
  "super_cls v = (case v of SuperInstance c obj \<Rightarrow> c | _ \<Rightarrow> v)"

definition super_obj :: "val \<Rightarrow> val" where
  "super_obj v = (case v of SuperInstance c obj \<Rightarrow> obj | _ \<Rightarrow> v)"

text \<open>\<^verbatim>\<open>len\<close> of a dictionary given as an association list.\<close>

definition len_dict :: "('k \<times> 'v) list \<Rightarrow> nat" where
  "len_dict d = length (remdups (map fst d))"

subsection \<open>The collaborators\<close>

text \<open>
  What the matcher asks of the value and view model and of \<^verbatim>\<open>pep484\<close>, at the CFG node of
  the match (the node never changes during a match, so it is part of the environment):
  \<^verbatim>\<open>left.formal\<close>, \<^verbatim>\<open>left.mro\<close> (a class is the first entry of its own MRO, so the MRO is
  not a field of the value), \<^verbatim>\<open>get_type_key()\<close>, \<^verbatim>\<open>get_type_parameter(node, name)\<close>,
  \<^verbatim>\<open>instantiate(node)\<close>, \<^verbatim>\<open>abstract.get_views\<close> and the table \<^verbatim>\<open>pep484.COMPAT_MAP\<close>.
\<close>

type_synonym view = "(var \<times> binding) list"

record env =
  formal :: "val \<Rightarrow> bool"
  mro :: "val \<Rightarrow> val list"
  get_type_key :: "val \<Rightarrow> nat"
  get_type_parameter :: "val \<Rightarrow> string \<Rightarrow> var"
  instantiate :: "val \<Rightarrow> var"
  get_views :: "var list \<Rightarrow> view list"
  COMPAT_MAP :: "(string \<times> string) list"

section \<open>Substitutions as objects\<close>

text \<open>
  A substitution is a Python dictionary from the name of a type parameter to a variable.
  The matcher copies and updates such dictionaries, so they live in a store: \<open>dicts h a\<close>
  is the dictionary at address \<open>a\<close>, in insertion order, and the addresses below
  \<open>next_dict h\<close> are allocated. \<open>next_var\<close> numbers the variables the program creates. A
  parameter \<open>subst\<close> of the matcher is a reference or \<^verbatim>\<open>None\<close>.
\<close>

record heap =
  dicts :: "nat \<Rightarrow> (string \<times> var) list"
  next_dict :: nat
  next_var :: nat

type_synonym 'a run = "heap \<Rightarrow> (error + 'a) \<times> heap"

definition return :: "'a \<Rightarrow> 'a run" where
  "return x h = (Inr x, h)"

definition raise :: "error \<Rightarrow> 'a run" where
  "raise e h = (Inl e, h)"

definition bind :: "'a run \<Rightarrow> ('a \<Rightarrow> 'b run) \<Rightarrow> 'b run" where
  "bind m f h = (case m h of (Inl e, h') \<Rightarrow> (Inl e, h') | (Inr x, h') \<Rightarrow> f x h')"

text \<open>\<^verbatim>\<open>subst = {}\<close>\<close>

definition new_dict :: "nat option run" where
  "new_dict h =
     (Inr (Some (next_dict h)),
      h\<lparr>dicts := (dicts h)(next_dict h := []), next_dict := Suc (next_dict h)\<rparr>)"

text \<open>\<^verbatim>\<open>name in subst\<close>\<close>

definition contains :: "string \<Rightarrow> nat option \<Rightarrow> bool run" where
  "contains k subst h =
     (case subst of
        None \<Rightarrow> (Inl TypeError, h)
      | Some a \<Rightarrow> (Inr (k \<in> fst ` set (dicts h a)), h))"

text \<open>\<^verbatim>\<open>subst.copy()\<close>\<close>

definition copy :: "nat option \<Rightarrow> nat option run" where
  "copy subst h =
     (case subst of
        None \<Rightarrow> (Inl (AttributeError ''copy''), h)
      | Some a \<Rightarrow>
          (Inr (Some (next_dict h)),
           h\<lparr>dicts := (dicts h)(next_dict h := dicts h a), next_dict := Suc (next_dict h)\<rparr>))"

text \<open>\<^verbatim>\<open>subst[name]\<close>\<close>

definition getitem_subst :: "nat option \<Rightarrow> string \<Rightarrow> var run" where
  "getitem_subst subst k h =
     (case subst of
        None \<Rightarrow> (Inl TypeError, h)
      | Some a \<Rightarrow> (case map_of (dicts h a) k of None \<Rightarrow> (Inl KeyError, h) | Some v \<Rightarrow> (Inr v, h)))"

text \<open>\<^verbatim>\<open>subst[name] = v\<close>\<close>

definition setitem :: "nat option \<Rightarrow> string \<Rightarrow> var \<Rightarrow> unit run" where
  "setitem subst k v h =
     (case subst of
        None \<Rightarrow> (Inl TypeError, h)
      | Some a \<Rightarrow> (Inr (), h\<lparr>dicts := (dicts h)(a := AList.update k v (dicts h a))\<rparr>))"

text \<open>
  \<^verbatim>\<open>utils.HashableDict(subst)\<close>: the finalized snapshot of a substitution, its entries.
\<close>

definition HashableDict :: "nat option \<Rightarrow> (string \<times> var) list run" where
  "HashableDict subst h =
     (case subst of None \<Rightarrow> (Inl TypeError, h) | Some a \<Rightarrow> (Inr (dicts h a), h))"

subsection \<open>Variables\<close>

text \<open>
  Modelled from the spec: ``an operation to assign a value to a fresh variable at a program
  point, an operation to add a binding to a variable'', where a variable holds a ``value
  set'': adding data that the variable holds already leaves it as it is. The justification
  set and the program point of a binding are not modelled.
\<close>

text \<open>\<^verbatim>\<open>program.NewVariable()\<close>\<close>

definition NewVariable :: "var run" where
  "NewVariable h = (Inr (Variable (next_var h) []), h\<lparr>next_var := Suc (next_var h)\<rparr>)"

text \<open>\<^verbatim>\<open>new_var.AddBinding(data, source_set, node)\<close>\<close>

definition AddBinding :: "var \<Rightarrow> val \<Rightarrow> var" where
  "AddBinding v d = (if d \<in> set (bindings v) then v else Variable (vid v) (bindings v @ [d]))"

text \<open>\<^verbatim>\<open>variable.AssignToNewVariable(node)\<close>: a fresh variable with the same data.\<close>

definition Variable_AssignToNewVariable :: "var \<Rightarrow> var run" where
  "Variable_AssignToNewVariable v =
     bind NewVariable (\<lambda>new_variable. return (fold (\<lambda>d nv. AddBinding nv d) (bindings v) new_variable))"

text \<open>\<^verbatim>\<open>binding.AssignToNewVariable(node)\<close>: a fresh variable holding the binding's data.\<close>

definition Binding_AssignToNewVariable :: "binding \<Rightarrow> var run" where
  "Binding_AssignToNewVariable b =
     bind NewVariable (\<lambda>new_variable. return (AddBinding new_variable (data b)))"

section \<open>matcher.py\<close>

subsection \<open>The shapes of its loops\<close>

text \<open>
  \<^verbatim>\<open>for x in xs: new_subst = f(x); if new_subst is not None: return new_subst\<close>, followed
  by the end of the function or by \<^verbatim>\<open>return None\<close>.
\<close>

fun first_match :: "('a \<Rightarrow> nat option run) \<Rightarrow> 'a list \<Rightarrow> nat option run" where
  "first_match f [] = return None"
| "first_match f (x # xs) =
     bind (f x) (\<lambda>new_subst. case new_subst of
        Some s \<Rightarrow> return (Some s)
      | None \<Rightarrow> first_match f xs)"

text \<open>
  \<^verbatim>\<open>for x in xs: subst = f(x, subst); if subst is None: return None\<close>, followed by
  \<^verbatim>\<open>return subst\<close>.
\<close>

fun thread :: "('a \<Rightarrow> nat option \<Rightarrow> nat option run) \<Rightarrow> 'a list \<Rightarrow> nat option \<Rightarrow> nat option run" where
  "thread f [] subst = return subst"
| "thread f (x # xs) subst =
     bind (f x subst) (\<lambda>subst'. case subst' of
        None \<Rightarrow> return None
      | Some s \<Rightarrow> thread f xs (Some s))"

text \<open>The same loop where the body also replaces the view.\<close>

fun thread_view ::
  "('a \<Rightarrow> nat option \<Rightarrow> view \<Rightarrow> (nat option \<times> view) run) \<Rightarrow> 'a list \<Rightarrow> nat option \<Rightarrow> view
     \<Rightarrow> nat option run" where
  "thread_view f [] subst view = return subst"
| "thread_view f (x # xs) subst view =
     bind (f x subst view) (\<lambda>(subst', view'). case subst' of
        None \<Rightarrow> return None
      | Some s \<Rightarrow> thread_view f xs (Some s) view')"

subsection \<open>\_match\_from\_mro\<close>

fun match_from_mro_loop :: "val list \<Rightarrow> val \<Rightarrow> error + val option" where
  "match_from_mro_loop [] other_type = Inr None"
| "match_from_mro_loop (base # rest) other_type =
     (let base_cls' = (if isinstance_ParameterizedClass base then base_cls base else base)
      in if isinstance_Class base_cls' then
           (if other_type = base_cls'
               \<or> (isinstance_ParameterizedClass other_type \<and> base_cls other_type = base_cls')
            then Inr (Some base)
            else match_from_mro_loop rest other_type)
         else if AMBIGUOUS_OR_EMPTY base_cls' then match_from_mro_loop rest other_type
         else Inl AssertionError)"

definition match_from_mro :: "env \<Rightarrow> val \<Rightarrow> val \<Rightarrow> error + val option" where
  "match_from_mro E left other_type = match_from_mro_loop (mro E left) other_type"

subsection \<open>The methods that call each other\<close>

text \<open>
  The methods of \<open>AbstractMatcher\<close> call each other through \<^verbatim>\<open>self\<close>. Each method is a
  definition that takes \<open>self\<close>, the function that runs a call of one of the methods; the
  function \<open>matcher\<close> below is that \<open>self\<close>, bounded in the depth of the calls.
\<close>

datatype call =
    match_var_against_type_call var val "nat option" view
  | match_value_against_type_call binding val "nat option" view
  | match_type_against_type_call val val "nat option" view
  | instantiate_and_match_call val val "nat option" view
  | match_instance_against_type_call val val "nat option" view
  | match_instance_call val val val "nat option" view
  | match_maybe_parameterized_instance_call val val val "nat option" view
  | match_heterogeneous_tuple_instance_call val val val "nat option" view
  | match_class_and_instance_against_type_call val val val "nat option" view

text \<open>The loop of \<^verbatim>\<open>match_var_against_type\<close> for a variable without bindings.\<close>

fun bind_type_parameters :: "val list \<Rightarrow> nat option \<Rightarrow> nat option run" where
  "bind_type_parameters [] subst = return subst"
| "bind_type_parameters (right # rest) subst =
     (if isinstance_TypeParameter right then
        bind (contains (name_of right) subst) (\<lambda>bound.
          if \<not> bound then
            bind (copy subst) (\<lambda>subst'.
            bind NewVariable (\<lambda>v.
            bind (setitem subst' (name_of right) v) (\<lambda>u.
            bind_type_parameters rest subst')))
          else bind_type_parameters rest subst)
      else bind_type_parameters rest subst)"

definition match_var_against_type ::
  "(call \<Rightarrow> nat option run) \<Rightarrow> env \<Rightarrow> var \<Rightarrow> val \<Rightarrow> nat option \<Rightarrow> view \<Rightarrow> nat option run" where
  "match_var_against_type self E var other_type subst view =
     (if bindings var \<noteq> [] then
        (case map_of view var of
           None \<Rightarrow> raise KeyError
         | Some value \<Rightarrow> self (match_value_against_type_call value other_type subst view))
      else
        bind_type_parameters
          (if isinstance_Union other_type then options other_type else [other_type]) subst)"

text \<open>
  The branch of \<^verbatim>\<open>_match_value_against_type\<close> for a type parameter. In the source the new
  variable is stored in the copy of \<open>subst\<close> first and receives its further bindings
  afterwards, through the same object; here the variable is completed and then stored.
\<close>

definition add_same_type_key :: "env \<Rightarrow> binding \<Rightarrow> var \<Rightarrow> var" where
  "add_same_type_key E value new_var =
     fold (\<lambda>other_value nv.
             if other_value \<noteq> value
                \<and> get_type_key E (data other_value) = get_type_key E (data value)
             then AddBinding nv (data other_value) else nv)
          (bindings_of (variable value)) new_var"

definition match_value_against_type_parameter ::
  "env \<Rightarrow> binding \<Rightarrow> val \<Rightarrow> nat option \<Rightarrow> nat option run" where
  "match_value_against_type_parameter E value other_type subst =
     bind (contains (name_of other_type) subst) (\<lambda>bound.
     bind (copy subst) (\<lambda>subst'.
     bind (if bound then
             bind (getitem_subst subst' (name_of other_type)) (\<lambda>old.
             bind (Variable_AssignToNewVariable old) (\<lambda>new_var.
             return (AddBinding new_var (data value))))
           else Binding_AssignToNewVariable value) (\<lambda>new_var.
     bind (setitem subst' (name_of other_type) (add_same_type_key E value new_var)) (\<lambda>u.
     return subst'))))"

definition match_value_against_type ::
  "(call \<Rightarrow> nat option run) \<Rightarrow> env \<Rightarrow> binding \<Rightarrow> val \<Rightarrow> nat option \<Rightarrow> view \<Rightarrow> nat option run" where
  "match_value_against_type self E value other_type subst view =
     (let left = data value in
      if formal E left then raise AssertionError
      else if isinstance_Class other_type then
        self (match_type_against_type_call left other_type subst view)
      else if isinstance_Union other_type then
        first_match (\<lambda>t. self (match_value_against_type_call value t subst view))
          (options other_type)
      else if isinstance_TypeParameter other_type then
        match_value_against_type_parameter E value other_type subst
      else if (isinstance_Unknown other_type \<or> isinstance_Unsolvable other_type)
              \<or> (isinstance_Unknown left \<or> isinstance_Unsolvable left) then
        (if isinstance_ParameterizedClass other_type then raise AssertionError
         else return subst)
      else if isinstance_Nothing other_type then
        self (match_type_against_type_call left other_type subst view)
      else return None)"

definition match_type_against_type ::
  "(call \<Rightarrow> nat option run) \<Rightarrow> env \<Rightarrow> val \<Rightarrow> val \<Rightarrow> nat option \<Rightarrow> view \<Rightarrow> nat option run" where
  "match_type_against_type self E left other_type subst view =
     (if isinstance_Empty left \<and> isinstance_Nothing other_type then return subst
      else if AMBIGUOUS_OR_EMPTY left then
        self (match_instance_call other_type left other_type subst view)
      else if isinstance_Class left then
        (if full_name other_type = ''__builtin__.type''
            \<and> isinstance_ParameterizedClass other_type then
           (case map_of (type_parameters other_type) (Name T) of
              None \<Rightarrow> raise KeyError
            | Some other_type' \<Rightarrow>
                self (instantiate_and_match_call left other_type' subst view))
         else if full_name other_type
                 \<in> set [''__builtin__.type'', ''__builtin__.object'', ''typing.Callable''] then
           return subst
         else if cls left \<noteq> None then
           self (match_instance_against_type_call left other_type subst view)
         else return None)
      else if isinstance_Module left then
        (if full_name other_type
            \<in> set [''__builtin__.module'', ''__builtin__.object'', ''types.ModuleType''] then
           return subst
         else return None)
      else if isinstance_SimpleAbstractValue left then
        self (match_instance_against_type_call left other_type subst view)
      else if isinstance_SuperInstance left then
        self (match_class_and_instance_against_type_call
                (super_cls left) (super_obj left) other_type subst view)
      else if isinstance_Function_or_BoundFunction left then
        (if full_name other_type \<in> set [''__builtin__.object'', ''typing.Callable''] then
           return subst
         else return None)
      else if isinstance_ClassMethod left then
        (if full_name other_type \<in> set [''__builtin__.classmethod'', ''__builtin__.object''] then
           return subst
         else return None)
      else if isinstance_StaticMethod left then
        (if full_name other_type \<in> set [''__builtin__.staticmethod'', ''__builtin__.object''] then
           return subst
         else return None)
      else if isinstance_Nothing left then
        (if isinstance_Nothing other_type then return subst else return None)
      else if isinstance_Union left then
        first_match (\<lambda>option. self (match_type_against_type_call option other_type subst view))
          (options left)
      else raise NotImplementedError)"

definition instantiate_and_match ::
  "(call \<Rightarrow> nat option run) \<Rightarrow> env \<Rightarrow> val \<Rightarrow> val \<Rightarrow> nat option \<Rightarrow> view \<Rightarrow> nat option run" where
  "instantiate_and_match self E left other_type subst view =
     (let instance = instantiate E left in
      first_match
        (\<lambda>new_view. self (match_var_against_type_call instance other_type subst
                            (AList.merge new_view view)))
        (get_views E [instance]))"

definition match_instance_against_type ::
  "(call \<Rightarrow> nat option run) \<Rightarrow> env \<Rightarrow> val \<Rightarrow> val \<Rightarrow> nat option \<Rightarrow> view \<Rightarrow> nat option run" where
  "match_instance_against_type self E left other_type subst view =
     (case get_class left of
        None \<Rightarrow> raise AssertionError
      | Some left_type \<Rightarrow>
          first_match
            (\<lambda>left_cls. self (match_class_and_instance_against_type_call
                                left_cls left other_type subst view))
            (bindings left_type))"

definition match_instance ::
  "(call \<Rightarrow> nat option run) \<Rightarrow> env \<Rightarrow> val \<Rightarrow> val \<Rightarrow> val \<Rightarrow> nat option \<Rightarrow> view
     \<Rightarrow> nat option run" where
  "match_instance self E left instance other_type subst view =
     (if isinstance_TupleClass left \<or> isinstance_Tuple instance
         \<or> isinstance_TupleClass other_type then
        bind (self (match_heterogeneous_tuple_instance_call left instance other_type subst view))
          (\<lambda>subst'. self (match_maybe_parameterized_instance_call
                            left instance other_type subst' view))
      else
        self (match_maybe_parameterized_instance_call left instance other_type subst view))"

text \<open>One round of the loop of \<^verbatim>\<open>_match_maybe_parameterized_instance\<close>.\<close>

definition match_template_item ::
  "(call \<Rightarrow> nat option run) \<Rightarrow> env \<Rightarrow> val \<Rightarrow> val \<Rightarrow> val \<Rightarrow> string \<Rightarrow> nat option \<Rightarrow> view
     \<Rightarrow> (nat option \<times> view) run" where
  "match_template_item self E left instance other_type type_param subst view =
     (case map_of (type_parameters other_type) (Name type_param) of
        None \<Rightarrow> raise KeyError
      | Some class_param \<Rightarrow>
          (case map_of (type_parameters left) (Name type_param) of
             None \<Rightarrow> raise KeyError
           | Some instance_type_param \<Rightarrow>
               (let instance_param0 = get_type_parameter E instance type_param;
                    instance_param =
                      (if bindings instance_param0 = []
                          \<and> isinstance_TypeParameter instance_type_param
                          \<and> name_of instance_type_param \<noteq> type_param
                       then get_type_parameter E instance (name_of instance_type_param)
                       else instance_param0)
                in bind (if bindings instance_param \<noteq> [] \<and> instance_param \<notin> fst ` set view then
                           (case bindings_of instance_param of
                              [binding] \<Rightarrow>
                                (if isinstance_Unsolvable (data binding)
                                 then return (AList.update instance_param binding view)
                                 else raise AssertionError)
                            | _ \<Rightarrow> raise ValueError)
                         else return view) (\<lambda>view'.
                   bind (self (match_var_against_type_call instance_param class_param subst view'))
                     (\<lambda>subst'. return (subst', view'))))))"

definition match_maybe_parameterized_instance ::
  "(call \<Rightarrow> nat option run) \<Rightarrow> env \<Rightarrow> val \<Rightarrow> val \<Rightarrow> val \<Rightarrow> nat option \<Rightarrow> view
     \<Rightarrow> nat option run" where
  "match_maybe_parameterized_instance self E left instance other_type subst view =
     (if isinstance_ParameterizedClass other_type then
        (if isinstance_ParameterizedClass left then
           (if base_cls left = base_cls other_type then
              thread_view (match_template_item self E left instance other_type)
                (template left) subst view
            else raise AssertionError)
         else
           (if left = base_cls other_type then
              thread_view (match_template_item self E other_type instance other_type)
                (template other_type) subst view
            else raise AssertionError))
      else return subst)"

definition match_heterogeneous_tuple_instance ::
  "(call \<Rightarrow> nat option run) \<Rightarrow> env \<Rightarrow> val \<Rightarrow> val \<Rightarrow> val \<Rightarrow> nat option \<Rightarrow> view
     \<Rightarrow> nat option run" where
  "match_heterogeneous_tuple_instance self E left instance other_type subst view =
     (if isinstance_Tuple instance then
        (if isinstance_TupleClass other_type then
           (if int (length (pyval instance)) = int (len_dict (type_parameters other_type)) - 1 then
              thread
                (\<lambda>i subst. case map_of (type_parameters other_type) (Index i) of
                     None \<Rightarrow> raise KeyError
                   | Some class_param \<Rightarrow>
                       self (match_var_against_type_call (pyval instance ! i) class_param
                               subst view))
                [0..<length (pyval instance)] subst
            else return None)
         else if isinstance_ParameterizedClass other_type then
           (case map_of (type_parameters other_type) (Name T) of
              None \<Rightarrow> raise KeyError
            | Some class_param \<Rightarrow>
                thread
                  (\<lambda>instance_param subst.
                     self (match_var_against_type_call instance_param class_param subst view))
                  (pyval instance) subst)
         else return subst)
      else if isinstance_TupleClass left then
        self (instantiate_and_match_call left other_type subst view)
      else if \<not> isinstance_TupleClass other_type then raise AssertionError
      else if isinstance_SimpleAbstractValue instance then
        (case map_of (instance_type_parameters instance) T of
           None \<Rightarrow> raise KeyError
         | Some instance_param \<Rightarrow>
             thread
               (\<lambda>i subst. case map_of (type_parameters other_type) (Index i) of
                    None \<Rightarrow> raise KeyError
                  | Some class_param \<Rightarrow>
                      self (match_var_against_type_call instance_param class_param subst view))
               [0..<len_dict (type_parameters other_type) - 1] subst)
      else return subst)"

text \<open>
  \<^verbatim>\<open>compatible_builtins\<close>, the dictionary built from \<^verbatim>\<open>pep484.COMPAT_MAP\<close>.
\<close>

definition compatible_builtins :: "env \<Rightarrow> (string \<times> string) list" where
  "compatible_builtins E =
     map (\<lambda>(k, v). (''__builtin__.'' @ k, ''__builtin__.'' @ v)) (COMPAT_MAP E)"

definition match_class_and_instance_against_type ::
  "(call \<Rightarrow> nat option run) \<Rightarrow> env \<Rightarrow> val \<Rightarrow> val \<Rightarrow> val \<Rightarrow> nat option \<Rightarrow> view
     \<Rightarrow> nat option run" where
  "match_class_and_instance_against_type self E left instance other_type subst view =
     (if full_name other_type = ''__builtin__.object'' then return subst
      else if map_of (compatible_builtins E) (full_name left) = Some (full_name other_type) then
        return subst
      else if isinstance_Class other_type then
        (case match_from_mro E left other_type of
           Inl e \<Rightarrow> raise e
         | Inr None \<Rightarrow> return None
         | Inr (Some base) \<Rightarrow> self (match_instance_call base instance other_type subst view))
      else if isinstance_Nothing other_type then return None
      else raise NotImplementedError)"

text \<open>
  \<^verbatim>\<open>self\<close>, with calls nested at most \<open>n\<close> deep: a method called at depth \<open>Suc n\<close> runs with a
  \<^verbatim>\<open>self\<close> of depth \<open>n\<close>.
\<close>

fun matcher :: "nat \<Rightarrow> env \<Rightarrow> call \<Rightarrow> nat option run" where
  "matcher 0 E c = raise OutOfFuel"
| "matcher (Suc n) E (match_var_against_type_call var other_type subst view) =
     match_var_against_type (matcher n E) E var other_type subst view"
| "matcher (Suc n) E (match_value_against_type_call value other_type subst view) =
     match_value_against_type (matcher n E) E value other_type subst view"
| "matcher (Suc n) E (match_type_against_type_call left other_type subst view) =
     match_type_against_type (matcher n E) E left other_type subst view"
| "matcher (Suc n) E (instantiate_and_match_call left other_type subst view) =
     instantiate_and_match (matcher n E) E left other_type subst view"
| "matcher (Suc n) E (match_instance_against_type_call left other_type subst view) =
     match_instance_against_type (matcher n E) E left other_type subst view"
| "matcher (Suc n) E (match_instance_call left instance other_type subst view) =
     match_instance (matcher n E) E left instance other_type subst view"
| "matcher (Suc n) E (match_maybe_parameterized_instance_call left instance other_type subst view) =
     match_maybe_parameterized_instance (matcher n E) E left instance other_type subst view"
| "matcher (Suc n) E (match_heterogeneous_tuple_instance_call left instance other_type subst view) =
     match_heterogeneous_tuple_instance (matcher n E) E left instance other_type subst view"
| "matcher (Suc n) E (match_class_and_instance_against_type_call left instance other_type subst view) =
     match_class_and_instance_against_type (matcher n E) E left instance other_type subst view"

subsection \<open>compute\_subst\<close>

fun compute_subst_loop ::
  "(call \<Rightarrow> nat option run) \<Rightarrow> (string \<times> val) list \<Rightarrow> (string \<times> binding) list \<Rightarrow> nat option
     \<Rightarrow> view \<Rightarrow> ((string \<times> var) list option \<times> string option) run" where
  "compute_subst_loop self [] arg_dict subst view =
     bind (HashableDict subst) (\<lambda>d. return (Some d, None))"
| "compute_subst_loop self ((name, formal') # rest) arg_dict subst view =
     (case map_of arg_dict name of
        None \<Rightarrow> raise KeyError
      | Some actual \<Rightarrow>
          bind (self (match_value_against_type_call actual formal' subst view)) (\<lambda>subst'.
            case subst' of
              None \<Rightarrow> return (None, Some name)
            | Some s \<Rightarrow> compute_subst_loop self rest arg_dict (Some s) view))"

definition compute_subst ::
  "nat \<Rightarrow> env \<Rightarrow> (string \<times> val) list \<Rightarrow> (string \<times> binding) list \<Rightarrow> view
     \<Rightarrow> ((string \<times> var) list option \<times> string option) run" where
  "compute_subst n E formal_args arg_dict view =
     (if arg_dict = [] then
        (if formal_args \<noteq> [] then raise AssertionError else return (Some [], None))
      else
        bind new_dict (\<lambda>subst.
          compute_subst_loop (matcher n E) formal_args arg_dict subst view))"

section \<open>Sequences of attempts\<close>

text \<open>
  The properties of the matcher's loops speak of attempts made one after the other, each
  starting in the store the one before has left. \<open>none_match f xs h\<close> is the store after
  every attempt \<open>f x\<close>, for \<open>x\<close> in \<open>xs\<close> in order, has returned \<^verbatim>\<open>None\<close>, starting in \<open>h\<close>;
  \<open>all_match f xs subst h\<close> is the substitution and the store after every attempt has
  returned a substitution, each attempt starting from the substitution of the one before.
  Both are \<open>None\<close> when an attempt does otherwise or raises.
\<close>

fun none_match :: "('a \<Rightarrow> nat option run) \<Rightarrow> 'a list \<Rightarrow> heap \<Rightarrow> heap option" where
  "none_match f [] h = Some h"
| "none_match f (x # xs) h =
     (case f x h of
        (Inr None, h') \<Rightarrow> none_match f xs h'
      | (Inr (Some s), h') \<Rightarrow> None
      | (Inl e, h') \<Rightarrow> None)"

fun all_match ::
  "('a \<Rightarrow> nat option \<Rightarrow> nat option run) \<Rightarrow> 'a list \<Rightarrow> nat option \<Rightarrow> heap
     \<Rightarrow> (nat option \<times> heap) option" where
  "all_match f [] subst h = Some (subst, h)"
| "all_match f (x # xs) subst h =
     (case f x subst h of
        (Inr (Some s), h') \<Rightarrow> all_match f xs (Some s) h'
      | (Inr None, h') \<Rightarrow> None
      | (Inl e, h') \<Rightarrow> None)"

text \<open>
  The attempt \<^verbatim>\<open>compute_subst\<close> makes on one pair of its argument \<^verbatim>\<open>formal_args\<close>: the
  lookup of the actual argument and the match of it against the formal type.
\<close>

definition match_argument ::
  "(call \<Rightarrow> nat option run) \<Rightarrow> (string \<times> binding) list \<Rightarrow> view \<Rightarrow> string \<times> val
     \<Rightarrow> nat option \<Rightarrow> nat option run" where
  "match_argument self arg_dict view =
     (\<lambda>(name, formal') subst. case map_of arg_dict name of
          None \<Rightarrow> raise KeyError
        | Some actual \<Rightarrow> self (match_value_against_type_call actual formal' subst view))"

text \<open>
  A store extends another when every dictionary allocated in the first is in the second,
  with the same entries.
\<close>

definition extends :: "heap \<Rightarrow> heap \<Rightarrow> bool" where
  "extends h h' =
     (next_dict h \<le> next_dict h' \<and> next_var h \<le> next_var h'
      \<and> (\<forall>a<next_dict h. dicts h' a = dicts h a))"

section \<open>A small world for examples\<close>

text \<open>
  An environment in which no value is formal, the MRO of a class is the class alone, all
  values have the same type key, no class can be instantiated and the compatibility table
  is that of \<^verbatim>\<open>pep484\<close> for \<open>int\<close> and \<open>float\<close>; and a store with one allocated, empty
  dictionary, at address 0.
\<close>

definition env0 :: env where
  "env0 = \<lparr>formal = \<lambda>v. False, mro = \<lambda>v. [v], get_type_key = \<lambda>v. 0,
            get_type_parameter = \<lambda>v n. Variable 0 [], instantiate = \<lambda>v. Variable 0 [],
            get_views = \<lambda>vs. [], COMPAT_MAP = [(''int'', ''float'')]\<rparr>"

definition heap0 :: heap where
  "heap0 = \<lparr>dicts = \<lambda>a. [], next_dict = 1, next_var = 10\<rparr>"

section \<open>Properties of the declared-type AST\<close>

lemma remdups_snoc: "remdups (xs @ [k]) = filter (\<lambda>x. x \<noteq> k) (remdups xs) @ [k]"
  by (induction xs) auto

lemma first_occ_Cons:
  "rev (remdups (rev (k # ks))) = k # filter (\<lambda>x. x \<noteq> k) (rev (remdups (rev ks)))"
  by (simp add: remdups_snoc rev_filter)

lemma fromkeys_loop_keys:
  "map Node_key (fromkeys_loop d xs) =
     map Node_key d @ filter (\<lambda>k. k \<notin> set (map Node_key d)) (rev (remdups (rev (map Node_key xs))))"
proof (induction xs arbitrary: d)
  case Nil
  then show ?case by simp
next
  case (Cons x xs)
  show ?case
  proof (cases "Node_key x \<in> set (map Node_key d)")
    case True
    have "filter (\<lambda>k. k \<notin> set (map Node_key d)) (filter (\<lambda>k. k \<noteq> Node_key x) ys)
          = filter (\<lambda>k. k \<notin> set (map Node_key d)) ys" for ys
      using True by (induction ys) auto
    with True Cons.IH [of d] show ?thesis
      by (simp only: fromkeys_loop.simps list.map first_occ_Cons if_True filter.simps) simp
  next
    case False
    have "filter (\<lambda>k. k \<notin> set (map Node_key (d @ [x]))) ys
          = filter (\<lambda>k. k \<notin> set (map Node_key d)) (filter (\<lambda>k. k \<noteq> Node_key x) ys)" for ys
      by (induction ys) auto
    with False Cons.IH [of "d @ [x]"] show ?thesis
      by (simp only: fromkeys_loop.simps list.map first_occ_Cons if_False filter.simps) simp
  qed
qed

lemma fromkeys_keys:
  "map Node_key (fromkeys xs) = rev (remdups (rev (map Node_key xs)))"
  by (simp add: fromkeys_def fromkeys_loop_keys)

lemma fromkeys_loop_subseq: "\<exists>ys. fromkeys_loop d xs = d @ ys \<and> subseq ys xs"
proof (induction xs arbitrary: d)
  case Nil
  then show ?case by simp
next
  case (Cons x xs)
  show ?case
  proof (cases "Node_key x \<in> set (map Node_key d)")
    case True
    with Cons.IH [of d] show ?thesis by (auto intro: subseq_Cons')
  next
    case False
    from Cons.IH [of "d @ [x]"] obtain ys
      where "fromkeys_loop (d @ [x]) xs = (d @ [x]) @ ys" "subseq ys xs" by blast
    with False show ?thesis by auto
  qed
qed

lemma fromkeys_subseq: "subseq (fromkeys xs) xs"
  using fromkeys_loop_subseq [of "[]" xs] by (auto simp: fromkeys_def)

lemma frozenset_fromkeys: "frozenset (fromkeys xs) = frozenset xs"
proof -
  have "set (map Node_key (fromkeys xs)) = set (map Node_key xs)"
    by (simp add: fromkeys_keys)
  then show ?thesis
    unfolding frozenset_def by (metis fset_of_list.rep_eq fset_inject)
qed

lemma frozenset_eq_iff:
  "frozenset xs = frozenset ys \<longleftrightarrow> Node_key ` set xs = Node_key ` set ys"
  unfolding frozenset_def by (metis fset_of_list.rep_eq fset_inject set_map)

lemma fromkeys_nonempty: "xs \<noteq> [] \<Longrightarrow> fromkeys xs \<noteq> []"
proof
  assume "xs \<noteq> []" "fromkeys xs = []"
  then have "rev (remdups (rev (map Node_key xs))) = []"
    using fromkeys_keys [of xs] by simp
  with \<open>xs \<noteq> []\<close> show False by simp
qed

lemma flattened_nonempty:
  "args \<noteq> [] \<Longrightarrow> list_all constructed args \<Longrightarrow> flattened args \<noteq> []"
  by (cases args) (auto simp: flattened_def constructed_def split: Type.splits)

lemma flattened_flat:
  "list_all constructed args \<Longrightarrow> list_all (\<lambda>m. \<not> isinstance_UnionType m) (flattened args)"
  by (induction args)
     (auto simp: flattened_def constructed_def isinstance_UnionType_def split: Type.splits)

lemma UnionType_eq_Node_eq: "UnionType_eq (UnionType xs) b = Node_eq (UnionType xs) b"
  by (cases b) (auto simp: UnionType_eq_def Node_eq_def isinstance_UnionType_def frozenset_def)


text \<open>
  Claim C8. \<^verbatim>\<open>UnionType.__new__\<close> on a non-empty list of types (whose members, where they
  are unions, have themselves come out of the constructor) returns a union whose member
  list is non-empty and holds no union (the members of a member union are inlined), is a
  subsequence of the flattened argument, and holds each key once, in the order of the
  first occurrences: its keys are the keys of the flattened argument with every later
  duplicate removed. Two unions are equal iff their sets of members are equal, whatever
  the order; a union built from one argument list equals the union built from another iff
  the flattened arguments have the same members, and equal unions have equal hashes.
\<close>

theorem UnionType_new_flattens_and_dedups:
  assumes "args \<noteq> []" and "list_all constructed args"
  shows "(\<exists>ms. UnionType_new args = Inr (UnionType ms)
           \<and> ms \<noteq> []
           \<and> list_all (\<lambda>m. \<not> isinstance_UnionType m) ms
           \<and> subseq ms (flattened args)
           \<and> map Node_key ms = rev (remdups (rev (map Node_key (flattened args))))
           \<and> distinct (map Node_key ms)
           \<and> (\<forall>args' u'. UnionType_new args' = Inr u' \<longrightarrow>
                 (UnionType_eq (UnionType ms) u'
                    \<longleftrightarrow> Node_key ` set (flattened args) = Node_key ` set (flattened args'))
               \<and> (UnionType_eq (UnionType ms) u'
                    \<longrightarrow> UnionType_hash hash (UnionType ms) = UnionType_hash hash u')))
         \<and> (UnionType_eq (UnionType xs) (UnionType ys)
              \<longleftrightarrow> Node_key ` set xs = Node_key ` set ys)"
proof -
  let ?ms = "fromkeys (flattened args)"
  have new: "UnionType_new args = Inr (UnionType ?ms)"
    using assms(1) by (simp add: UnionType_new_def)
  have ne: "?ms \<noteq> []"
    using assms by (simp add: fromkeys_nonempty flattened_nonempty)
  have sub: "subseq ?ms (flattened args)"
    by (rule fromkeys_subseq)
  have "set ?ms \<subseteq> set (flattened args)"
    using sub by (auto dest: list_emb_set)
  then have flat: "list_all (\<lambda>m. \<not> isinstance_UnionType m) ?ms"
    using flattened_flat [OF assms(2)] by (auto simp: list_all_iff)
  have keys: "map Node_key ?ms = rev (remdups (rev (map Node_key (flattened args))))"
    by (rule fromkeys_keys)
  have dist: "distinct (map Node_key ?ms)"
    by (simp add: keys)
  have eq: "(UnionType_eq (UnionType ?ms) u'
               \<longleftrightarrow> Node_key ` set (flattened args) = Node_key ` set (flattened args'))
            \<and> (UnionType_eq (UnionType ?ms) u'
               \<longrightarrow> UnionType_hash hash (UnionType ?ms) = UnionType_hash hash u')"
    if "UnionType_new args' = Inr u'" for args' u'
  proof -
    from that have u': "u' = UnionType (fromkeys (flattened args'))"
      by (auto simp: UnionType_new_def split: if_splits)
    show ?thesis
      using frozenset_eq_iff [of "flattened args" "flattened args'"]
      by (auto simp: u' UnionType_eq_def UnionType_hash_def isinstance_UnionType_def
            frozenset_fromkeys)
  qed
  have two: "UnionType_eq (UnionType xs) (UnionType ys)
               \<longleftrightarrow> Node_key ` set xs = Node_key ` set ys"
    by (simp add: UnionType_eq_def isinstance_UnionType_def frozenset_eq_iff)
  from new ne flat sub keys dist eq two show ?thesis by blast
qed

theorem UnionType_new_flattens_and_dedups_witness:
  "[NamedType ''A'', UnionType [NamedType ''B'', NamedType ''C''], NamedType ''A''] \<noteq> []
   \<and> list_all constructed
        [NamedType ''A'', UnionType [NamedType ''B'', NamedType ''C''], NamedType ''A'']
   \<and> UnionType_new
        [NamedType ''A'', UnionType [NamedType ''B'', NamedType ''C''], NamedType ''A'']
       = Inr (UnionType [NamedType ''A'', NamedType ''B'', NamedType ''C''])
   \<and> UnionType_new [NamedType ''C'', NamedType ''A'', NamedType ''B'']
       = Inr (UnionType [NamedType ''C'', NamedType ''A'', NamedType ''B''])
   \<and> UnionType_eq (UnionType [NamedType ''A'', NamedType ''B'', NamedType ''C''])
        (UnionType [NamedType ''C'', NamedType ''A'', NamedType ''B''])
   \<and> UnionType_hash (\<lambda>s. 0) (UnionType [NamedType ''A'', NamedType ''B'', NamedType ''C''])
       = UnionType_hash (\<lambda>s. 0) (UnionType [NamedType ''C'', NamedType ''A'', NamedType ''B''])"
proof -
  let ?args = "[NamedType ''A'', UnionType [NamedType ''B'', NamedType ''C''], NamedType ''A'']"
  let ?args' = "[NamedType ''C'', NamedType ''A'', NamedType ''B'']"
  have h1: "?args \<noteq> []" by simp
  have h2: "list_all constructed ?args"
    by (simp add: constructed_def isinstance_UnionType_def)
  have n1: "UnionType_new ?args
            = Inr (UnionType [NamedType ''A'', NamedType ''B'', NamedType ''C''])"
    by (simp add: UnionType_new_def flattened_def fromkeys_def)
  have n2: "UnionType_new ?args' = Inr (UnionType ?args')"
    by (simp add: UnionType_new_def flattened_def fromkeys_def)
  have s: "Node_key ` set (flattened ?args) = Node_key ` set (flattened ?args')"
    by (auto simp: flattened_def)
  from UnionType_new_flattens_and_dedups [OF h1 h2, of "\<lambda>s. 0", THEN conjunct1] n1 n2 s
  have "UnionType_eq (UnionType [NamedType ''A'', NamedType ''B'', NamedType ''C'']) (UnionType ?args')
        \<and> UnionType_hash (\<lambda>s. 0) (UnionType [NamedType ''A'', NamedType ''B'', NamedType ''C''])
           = UnionType_hash (\<lambda>s. 0) (UnionType ?args')"
    by (metis old.sum.inject(2) Type.inject(4))
  with h1 h2 n1 n2 show ?thesis by blast
qed


lemma TypeDeclUnit_fill_duplicate:
  "\<not> distinct (map item_name xs) \<Longrightarrow>
   \<exists>x\<in>set xs. fst (TypeDeclUnit_fill xs d) = Inl (AttributeError (''Duplicate name '' @ item_name x))"
proof (induction xs arbitrary: d)
  case Nil
  then show ?case by simp
next
  case (Cons x xs)
  show ?case
  proof (cases "item_name x \<in> fst ` set d")
    case True
    then show ?thesis by simp
  next
    case False
    note notin = this
    show ?thesis
    proof (cases "distinct (map item_name xs)")
      case False
      from Cons.IH [OF this, of "AList.update (item_name x) x d"] notin
      show ?thesis by auto
    next
      case True
      with Cons.prems have "item_name x \<in> item_name ` set xs" by auto
      then obtain y where y: "y \<in> set xs" "item_name y = item_name x" by auto
      have "\<exists>z\<in>set ys. fst (TypeDeclUnit_fill ys e)
                 = Inl (AttributeError (''Duplicate name '' @ item_name z))"
        if "y \<in> set ys" "item_name y \<in> fst ` set e" for ys e
        using that
      proof (induction ys arbitrary: e)
        case Nil
        then show ?case by simp
      next
        case (Cons z zs)
        show ?case
        proof (cases "item_name z \<in> fst ` set e")
          case True
          then show ?thesis by simp
        next
          case False
          with Cons.prems have "y \<in> set zs" by auto
          moreover have "item_name y \<in> fst ` set (AList.update (item_name z) z e)"
            using Cons.prems(2) by (simp add: dom_update)
          ultimately show ?thesis
            using Cons.IH [of "AList.update (item_name z) z e"] False by auto
        qed
      qed
      from this [of xs "AList.update (item_name x) x d"] y notin
      show ?thesis by (auto simp: dom_update)
    qed
  qed
qed

lemma TypeDeclUnit_fill_error:
  "TypeDeclUnit_fill xs d = (Inl e, d') \<Longrightarrow> \<exists>msg. e = AttributeError msg"
  by (induction xs arbitrary: d) (auto split: if_splits)

lemma map_of_foldl_update:
  "map_of (foldl (\<lambda>d x. AList.update (item_name x) x d) d xs) name =
     (case find (\<lambda>x. item_name x = name) (rev xs) of
        Some x \<Rightarrow> Some x
      | None \<Rightarrow> map_of d name)"
  by (induction xs rule: rev_induct) (auto simp: update_conv')

text \<open>
  Claim C4, as the code has it. On a \<open>TypeDeclUnit\<close> whose table is not built yet, a lookup
  fails with the duplicate-name error when two of its constants, functions, classes and
  aliases share a name. \<open>Class.Lookup\<close> detects no duplicates: on a class whose table is not
  built yet it returns the last declaration of the name among the methods followed by the
  constants, and fails only with \<open>KeyError\<close>, for a name that is not declared. On a class,
  and on a module whose lookup did not raise the duplicate-name error, a second lookup of
  the same name returns the same result and leaves the object as it is.
\<close>

theorem Lookup_duplicates_and_cache:
  "(name2item u = None \<and> \<not> distinct (map item_name (TypeDeclUnit_items (node u))) \<longrightarrow>
      (\<exists>x\<in>set (TypeDeclUnit_items (node u)).
         fst (TypeDeclUnit_Lookup u name)
           = Inl (AttributeError (''Duplicate name '' @ item_name x))))
   \<and> (TypeDeclUnit_Lookup u name = (r, u') \<and> (\<forall>msg. r \<noteq> Inl (AttributeError msg)) \<longrightarrow>
        TypeDeclUnit_Lookup u' name = (r, u'))
   \<and> (name2item c = None \<longrightarrow>
        fst (Class_Lookup c name) =
          (case find (\<lambda>x. item_name x = name) (rev (Class_items (node c))) of
             Some x \<Rightarrow> Inr x
           | None \<Rightarrow> Inl KeyError))
   \<and> (Class_Lookup c name = (r', c') \<longrightarrow> Class_Lookup c' name = (r', c'))"
proof -
  have 1: "\<exists>x\<in>set (TypeDeclUnit_items (node u)).
          fst (TypeDeclUnit_Lookup u name)
            = Inl (AttributeError (''Duplicate name '' @ item_name x))"
    if "name2item u = None" "\<not> distinct (map item_name (TypeDeclUnit_items (node u)))"
  proof -
    let ?d0 = "foldl (\<lambda>d x. AList.update (item_name x) x d) []
                 (map ItemTypeParameter (type_params (node u)))"
    from TypeDeclUnit_fill_duplicate [OF that(2), of ?d0]
    obtain x where x: "x \<in> set (TypeDeclUnit_items (node u))"
      "fst (TypeDeclUnit_fill (TypeDeclUnit_items (node u)) ?d0)
         = Inl (AttributeError (''Duplicate name '' @ item_name x))" by blast
    then have "fst (TypeDeclUnit_Lookup u name)
                 = Inl (AttributeError (''Duplicate name '' @ item_name x))"
      using that(1)
      by (cases "TypeDeclUnit_fill (TypeDeclUnit_items (node u)) ?d0")
         (auto simp: TypeDeclUnit_Lookup_def)
    with x(1) show ?thesis by blast
  qed
  have 2: "TypeDeclUnit_Lookup u' name = (r, u')"
    if "TypeDeclUnit_Lookup u name = (r, u')" "\<forall>msg. r \<noteq> Inl (AttributeError msg)"
    using that
    by (auto simp: TypeDeclUnit_Lookup_def Let_def dest: TypeDeclUnit_fill_error
             split: option.splits prod.splits sum.splits)
  have 3: "fst (Class_Lookup c name) =
          (case find (\<lambda>x. item_name x = name) (rev (Class_items (node c))) of
             Some x \<Rightarrow> Inr x
           | None \<Rightarrow> Inl KeyError)"
    if "name2item c = None"
    using that
    by (simp add: Class_Lookup_def getitem_def map_of_foldl_update split: option.splits)
  have 4: "Class_Lookup c' name = (r', c')" if "Class_Lookup c name = (r', c')"
    using that by (auto simp: Class_Lookup_def Let_def split: option.splits)
  from 1 2 3 4 show ?thesis by blast
qed

theorem Class_Lookup_duplicate_counterexample:
  "\<not> distinct (map item_name (Class_items
        (pytd_Class ''C'' None [] [pytd_Function ''x'' [] ''method''] [Constant ''x'' AnythingType] [])))
   \<and> fst (Class_Lookup
        \<lparr>node = pytd_Class ''C'' None [] [pytd_Function ''x'' [] ''method''] [Constant ''x'' AnythingType] [],
         name2item = None\<rparr> ''x'')
      = Inr (ItemConstant (Constant ''x'' AnythingType))"
  by (simp add: Class_Lookup_def Class_items_def getitem_def)

theorem Lookup_duplicates_and_cache_witness:
  "fst (TypeDeclUnit_Lookup
      \<lparr>node = TypeDeclUnit None [Constant ''x'' AnythingType] []
                [pytd_Class ''x'' None [] [] [] []] [] [],
       name2item = None\<rparr> ''x'')
     = Inl (AttributeError ''Duplicate name x'')
   \<and> TypeDeclUnit_Lookup
      \<lparr>node = TypeDeclUnit None [Constant ''x'' AnythingType] [] [] [] [],
       name2item = Some [(''x'', ItemConstant (Constant ''x'' AnythingType))]\<rparr> ''x''
     = (Inr (ItemConstant (Constant ''x'' AnythingType)),
        \<lparr>node = TypeDeclUnit None [Constant ''x'' AnythingType] [] [] [] [],
         name2item = Some [(''x'', ItemConstant (Constant ''x'' AnythingType))]\<rparr>)
   \<and> fst (Class_Lookup
        \<lparr>node = pytd_Class ''C'' None [] [pytd_Function ''x'' [] ''method''] [Constant ''x'' AnythingType] [],
         name2item = None\<rparr> ''x'')
      = Inr (ItemConstant (Constant ''x'' AnythingType))
   \<and> Class_Lookup
        \<lparr>node = pytd_Class ''C'' None [] [pytd_Function ''x'' [] ''method''] [Constant ''x'' AnythingType] [],
         name2item = Some [(''x'', ItemConstant (Constant ''x'' AnythingType))]\<rparr> ''x''
      = (Inr (ItemConstant (Constant ''x'' AnythingType)),
         \<lparr>node = pytd_Class ''C'' None [] [pytd_Function ''x'' [] ''method''] [Constant ''x'' AnythingType] [],
          name2item = Some [(''x'', ItemConstant (Constant ''x'' AnythingType))]\<rparr>)"
proof -
  let ?u = "\<lparr>node = TypeDeclUnit None [Constant ''x'' AnythingType] []
                [pytd_Class ''x'' None [] [] [] []] [] [],
             name2item = None\<rparr>"
  let ?u1 = "\<lparr>node = TypeDeclUnit None [Constant ''x'' AnythingType] [] [] [] [],
              name2item = None\<rparr>"
  let ?u2 = "\<lparr>node = TypeDeclUnit None [Constant ''x'' AnythingType] [] [] [] [],
              name2item = Some [(''x'', ItemConstant (Constant ''x'' AnythingType))]\<rparr>"
  let ?c = "\<lparr>node = pytd_Class ''C'' None [] [pytd_Function ''x'' [] ''method'']
                      [Constant ''x'' AnythingType] [],
             name2item = None\<rparr>"
  let ?c2 = "\<lparr>node = pytd_Class ''C'' None [] [pytd_Function ''x'' [] ''method'']
                      [Constant ''x'' AnythingType] [],
             name2item = Some [(''x'', ItemConstant (Constant ''x'' AnythingType))]\<rparr>"
  have a: "name2item ?u = None" by simp
  have b: "\<not> distinct (map item_name (TypeDeclUnit_items (node ?u)))"
    by (simp add: TypeDeclUnit_items_def)
  have 1: "fst (TypeDeclUnit_Lookup ?u ''x'') = Inl (AttributeError ''Duplicate name x'')"
    using Lookup_duplicates_and_cache [where u = ?u and name = "''x''", THEN conjunct1] a b
    by (auto simp: TypeDeclUnit_items_def)
  have l: "TypeDeclUnit_Lookup ?u1 ''x'' = (Inr (ItemConstant (Constant ''x'' AnythingType)), ?u2)"
    by (simp add: TypeDeclUnit_Lookup_def TypeDeclUnit_items_def getitem_def)
  have 2: "TypeDeclUnit_Lookup ?u2 ''x'' = (Inr (ItemConstant (Constant ''x'' AnythingType)), ?u2)"
    using Lookup_duplicates_and_cache [where u = ?u1 and name = "''x''", THEN conjunct2, THEN conjunct1] l
    by simp
  have 3: "fst (Class_Lookup ?c ''x'') = Inr (ItemConstant (Constant ''x'' AnythingType))"
    using Lookup_duplicates_and_cache [where c = ?c and name = "''x''", THEN conjunct2, THEN conjunct2,
        THEN conjunct1]
    by (simp add: Class_items_def)
  have m: "Class_Lookup ?c ''x'' = (Inr (ItemConstant (Constant ''x'' AnythingType)), ?c2)"
    by (simp add: Class_Lookup_def Class_items_def getitem_def)
  have 4: "Class_Lookup ?c2 ''x'' = (Inr (ItemConstant (Constant ''x'' AnythingType)), ?c2)"
    using Lookup_duplicates_and_cache [where c = ?c and name = "''x''", THEN conjunct2, THEN conjunct2,
        THEN conjunct2] m
    by blast
  from 1 2 3 4 show ?thesis by blast
qed

section \<open>Properties of the matcher\<close>

subsection \<open>The loops\<close>

lemma first_match_none: "none_match f xs h = Some h' \<Longrightarrow> first_match f xs h = (Inr None, h')"
  by (induction xs arbitrary: h)
     (auto simp: return_def bind_def split: prod.splits sum.splits option.splits)

lemma first_match_none_iff:
  "first_match f xs h = (Inr None, h') \<longleftrightarrow> none_match f xs h = Some h'"
  by (induction xs arbitrary: h)
     (auto simp: return_def bind_def split: prod.splits sum.splits option.splits)

lemma first_match_hit:
  "none_match f pre h = Some h1 \<Longrightarrow> f t h1 = (Inr (Some s), h2) \<Longrightarrow>
   first_match f (pre @ t # post) h = (Inr (Some s), h2)"
  by (induction pre arbitrary: h)
     (auto simp: return_def bind_def split: prod.splits sum.splits option.splits)

lemma first_match_hit_conv:
  "first_match f xs h = (Inr (Some s), h2) \<Longrightarrow>
   \<exists>pre t post h1. xs = pre @ t # post \<and> none_match f pre h = Some h1
                 \<and> f t h1 = (Inr (Some s), h2)"
proof (induction xs arbitrary: h)
  case Nil
  then show ?case by (simp add: return_def)
next
  case (Cons x xs)
  show ?case
  proof (cases "f x h")
    case (Pair r h')
    show ?thesis
    proof (cases r)
      case (Inl e)
      with Pair Cons.prems show ?thesis by (simp add: bind_def)
    next
      case (Inr ro)
      show ?thesis
      proof (cases ro)
        case None
        with Pair Inr Cons.prems have "first_match f xs h' = (Inr (Some s), h2)"
          by (simp add: bind_def)
        from Cons.IH [OF this] obtain pre t post h1 where
          "xs = pre @ t # post" "none_match f pre h' = Some h1" "f t h1 = (Inr (Some s), h2)"
          by blast
        with Pair Inr None have "x # xs = (x # pre) @ t # post"
          "none_match f (x # pre) h = Some h1" "f t h1 = (Inr (Some s), h2)"
          by auto
        then show ?thesis by blast
      next
        case (Some s')
        with Pair Inr Cons.prems have "f x h = (Inr (Some s), h2)"
          by (simp add: bind_def return_def)
        then have "x # xs = [] @ x # xs" "none_match f [] h = Some h" "f x h = (Inr (Some s), h2)"
          by auto
        then show ?thesis by blast
      qed
    qed
  qed
qed

lemma thread_all: "all_match f xs subst h = Some (s', h') \<Longrightarrow> thread f xs subst h = (Inr s', h')"
  by (induction xs arbitrary: subst h)
     (auto simp: return_def bind_def split: prod.splits sum.splits option.splits)

lemma thread_fail:
  "all_match f pre subst h = Some (s1, h1) \<Longrightarrow> f x s1 h1 = (Inr None, h2) \<Longrightarrow>
   thread f (pre @ x # post) subst h = (Inr None, h2)"
  by (induction pre arbitrary: subst h)
     (auto simp: return_def bind_def split: prod.splits sum.splits option.splits)

lemma thread_Some_conv:
  "thread f xs (Some s) h = (Inr (Some s'), h') \<Longrightarrow> all_match f xs (Some s) h = Some (Some s', h')"
  by (induction xs arbitrary: s h)
     (auto simp: return_def bind_def split: prod.splits sum.splits option.splits)


subsection \<open>The MRO walk\<close>

lemma match_from_mro_loop_skip:
  "AMBIGUOUS_OR_EMPTY amb \<Longrightarrow>
   match_from_mro_loop (pre @ amb # post) t = match_from_mro_loop (pre @ post) t"
proof (induction pre)
  case Nil
  then show ?case
    by (auto simp: AMBIGUOUS_OR_EMPTY_def isinstance_ParameterizedClass_def isinstance_Class_def)
next
  case (Cons b pre)
  then show ?case by (simp add: Let_def)
qed

lemma match_from_mro_loop_first:
  assumes "\<And>b. b \<in> set pre \<Longrightarrow>
             AMBIGUOUS_OR_EMPTY (if isinstance_ParameterizedClass b then base_cls b else b)
             \<or> (isinstance_Class (if isinstance_ParameterizedClass b then base_cls b else b)
                \<and> t \<noteq> (if isinstance_ParameterizedClass b then base_cls b else b)
                \<and> \<not> (isinstance_ParameterizedClass t
                      \<and> base_cls t = (if isinstance_ParameterizedClass b then base_cls b else b)))"
  shows "match_from_mro_loop (pre @ rest) t = match_from_mro_loop rest t"
  using assms
proof (induction pre)
  case Nil
  then show ?case by simp
next
  case (Cons b pre)
  let ?u = "if isinstance_ParameterizedClass b then base_cls b else b"
  have IH: "match_from_mro_loop (pre @ rest) t = match_from_mro_loop rest t"
    by (rule Cons.IH) (rule Cons.prems, simp)
  have step: "match_from_mro_loop ((b # pre) @ rest) t = match_from_mro_loop (pre @ rest) t"
  proof (cases "AMBIGUOUS_OR_EMPTY ?u")
    case True
    then have "\<not> isinstance_Class ?u"
      by (auto simp: AMBIGUOUS_OR_EMPTY_def isinstance_Class_def)
    with True show ?thesis by (simp add: Let_def)
  next
    case False
    with Cons.prems [of b] have "isinstance_Class ?u" "t \<noteq> ?u"
      "\<not> (isinstance_ParameterizedClass t \<and> base_cls t = ?u)" by auto
    then show ?thesis by (cases "isinstance_ParameterizedClass b") (auto simp: Let_def)
  qed
  show ?case by (simp only: step IH)
qed

text \<open>
  Claim C5. In the walk over the MRO a base whose un-parameterized class is ambiguous or
  empty is passed over: the walk over an MRO with such a base in it gives what the walk
  over the MRO without it gives. The walk returns the first base whose un-parameterized
  class is the formal type or the base class of a parameterized formal type, when the bases
  before it are ambiguous or classes that do not qualify, and it returns no base when every
  base of the MRO is ambiguous or a class that does not qualify.
\<close>

theorem match_from_mro_skips_ambiguous:
  "let unparameterized = (\<lambda>base. if isinstance_ParameterizedClass base then base_cls base else base);
       qualifies = (\<lambda>base. isinstance_Class (unparameterized base)
                      \<and> (other_type = unparameterized base
                         \<or> (isinstance_ParameterizedClass other_type
                            \<and> base_cls other_type = unparameterized base)));
       passed = (\<lambda>base. AMBIGUOUS_OR_EMPTY (unparameterized base)
                      \<or> (isinstance_Class (unparameterized base) \<and> \<not> qualifies base))
   in (AMBIGUOUS_OR_EMPTY amb \<longrightarrow>
         match_from_mro_loop (pre @ amb # post) other_type
           = match_from_mro_loop (pre @ post) other_type)
    \<and> (mro E left = pre @ base # post \<and> list_all passed pre \<and> qualifies base \<longrightarrow>
         match_from_mro E left other_type = Inr (Some base))
    \<and> (list_all passed (mro E left) \<longrightarrow> match_from_mro E left other_type = Inr None)"
proof (unfold Let_def match_from_mro_def, intro conjI impI)
  assume "AMBIGUOUS_OR_EMPTY amb"
  then show "match_from_mro_loop (pre @ amb # post) other_type
               = match_from_mro_loop (pre @ post) other_type"
    by (rule match_from_mro_loop_skip)
next
  let ?un = "\<lambda>base. if isinstance_ParameterizedClass base then base_cls base else base"
  assume a: "mro E left = pre @ base # post
     \<and> list_all (\<lambda>base. AMBIGUOUS_OR_EMPTY (?un base)
                  \<or> (isinstance_Class (?un base)
                     \<and> \<not> (isinstance_Class (?un base)
                           \<and> (other_type = ?un base
                              \<or> (isinstance_ParameterizedClass other_type
                                 \<and> base_cls other_type = ?un base))))) pre
     \<and> (isinstance_Class (?un base)
        \<and> (other_type = ?un base
           \<or> (isinstance_ParameterizedClass other_type \<and> base_cls other_type = ?un base)))"
  then have "match_from_mro_loop (pre @ base # post) other_type
               = match_from_mro_loop (base # post) other_type"
    by (intro match_from_mro_loop_first) (auto simp: list_all_iff)
  also have "\<dots> = Inr (Some base)"
    using a by (auto simp: Let_def)
  finally show "match_from_mro_loop (mro E left) other_type = Inr (Some base)"
    using a by simp
next
  let ?un = "\<lambda>base. if isinstance_ParameterizedClass base then base_cls base else base"
  assume a: "list_all (\<lambda>base. AMBIGUOUS_OR_EMPTY (?un base)
                  \<or> (isinstance_Class (?un base)
                     \<and> \<not> (isinstance_Class (?un base)
                           \<and> (other_type = ?un base
                              \<or> (isinstance_ParameterizedClass other_type
                                 \<and> base_cls other_type = ?un base))))) (mro E left)"
  then have "match_from_mro_loop (mro E left @ []) other_type = match_from_mro_loop [] other_type"
    by (intro match_from_mro_loop_first) (auto simp: list_all_iff)
  then show "match_from_mro_loop (mro E left) other_type = Inr None"
    by simp
qed

theorem match_from_mro_skips_ambiguous_witness:
  "AMBIGUOUS_OR_EMPTY Unknown
   \<and> match_from_mro_loop ([Class 1 ''C'' None []] @ Unknown # [Class 2 ''B'' None []])
        (Class 2 ''B'' None [])
      = match_from_mro_loop ([Class 1 ''C'' None []] @ [Class 2 ''B'' None []])
          (Class 2 ''B'' None [])
   \<and> match_from_mro
        \<lparr>formal = \<lambda>v. False, mro = \<lambda>v. [Class 1 ''C'' None [], Unknown, Class 2 ''B'' None []],
         get_type_key = \<lambda>v. 0, get_type_parameter = \<lambda>v n. Variable 0 [],
         instantiate = \<lambda>v. Variable 0 [], get_views = \<lambda>vs. [], COMPAT_MAP = []\<rparr>
        (Class 1 ''C'' None []) (Class 2 ''B'' None [])
      = Inr (Some (Class 2 ''B'' None []))
   \<and> match_from_mro
        \<lparr>formal = \<lambda>v. False, mro = \<lambda>v. [Class 1 ''C'' None [], Unknown, Class 2 ''B'' None []],
         get_type_key = \<lambda>v. 0, get_type_parameter = \<lambda>v n. Variable 0 [],
         instantiate = \<lambda>v. Variable 0 [], get_views = \<lambda>vs. [], COMPAT_MAP = []\<rparr>
        (Class 1 ''C'' None []) (Class 3 ''D'' None [])
      = Inr None"
proof -
  let ?E = "\<lparr>formal = \<lambda>v. False, mro = \<lambda>v. [Class 1 ''C'' None [], Unknown, Class 2 ''B'' None []],
         get_type_key = \<lambda>v. 0, get_type_parameter = \<lambda>v n. Variable 0 [],
         instantiate = \<lambda>v. Variable 0 [], get_views = \<lambda>vs. [], COMPAT_MAP = []\<rparr>"
  have a: "AMBIGUOUS_OR_EMPTY Unknown" by (simp add: AMBIGUOUS_OR_EMPTY_def)
  note t = match_from_mro_skips_ambiguous
    [where E = ?E and left = "Class 1 ''C'' None []" and other_type = "Class 2 ''B'' None []"
       and pre = "[Class 1 ''C'' None []]" and amb = Unknown and post = "[Class 2 ''B'' None []]",
     unfolded Let_def]
  note t2 = match_from_mro_skips_ambiguous
    [where E = ?E and left = "Class 1 ''C'' None []" and other_type = "Class 2 ''B'' None []"
       and pre = "[Class 1 ''C'' None [], Unknown]" and base = "Class 2 ''B'' None []" and post = "[]",
     unfolded Let_def]
  note t3 = match_from_mro_skips_ambiguous
    [where E = ?E and left = "Class 1 ''C'' None []" and other_type = "Class 3 ''D'' None []",
     unfolded Let_def]
  have 1: "match_from_mro_loop ([Class 1 ''C'' None []] @ Unknown # [Class 2 ''B'' None []])
        (Class 2 ''B'' None [])
      = match_from_mro_loop ([Class 1 ''C'' None []] @ [Class 2 ''B'' None []])
          (Class 2 ''B'' None [])"
    using t a by blast
  have 2: "match_from_mro ?E (Class 1 ''C'' None []) (Class 2 ''B'' None [])
             = Inr (Some (Class 2 ''B'' None []))"
    using t2
    by (simp add: AMBIGUOUS_OR_EMPTY_def isinstance_ParameterizedClass_def isinstance_Class_def)
  have 3: "match_from_mro ?E (Class 1 ''C'' None []) (Class 3 ''D'' None []) = Inr None"
    using t3
    by (simp add: AMBIGUOUS_OR_EMPTY_def isinstance_ParameterizedClass_def isinstance_Class_def)
  from a 1 2 3 show ?thesis by blast
qed

subsection \<open>Matching a value against a union\<close>

lemmas isinstance_defs =
  isinstance_Class_def isinstance_ParameterizedClass_def isinstance_TupleClass_def
  isinstance_Union_def isinstance_TypeParameter_def isinstance_Unknown_def
  isinstance_Unsolvable_def isinstance_Empty_def isinstance_Nothing_def
  isinstance_SimpleAbstractValue_def isinstance_Tuple_def isinstance_Module_def
  isinstance_Function_or_BoundFunction_def isinstance_ClassMethod_def
  isinstance_StaticMethod_def isinstance_SuperInstance_def AMBIGUOUS_OR_EMPTY_def

lemmas attribute_defs =
  get_class_def base_cls_def type_parameters_def instance_type_parameters_def pyval_def
  options_def name_of_def super_cls_def super_obj_def len_dict_def T_def bindings_of_def

lemmas run_defs =
  return_def raise_def bind_def new_dict_def contains_def copy_def getitem_subst_def
  setitem_def HashableDict_def NewVariable_def AddBinding_def
  Variable_AssignToNewVariable_def Binding_AssignToNewVariable_def

lemmas method_defs =
  match_var_against_type_def match_value_against_type_def match_value_against_type_parameter_def
  add_same_type_key_def match_type_against_type_def instantiate_and_match_def
  match_instance_against_type_def match_instance_def match_template_item_def
  match_maybe_parameterized_instance_def match_heterogeneous_tuple_instance_def
  compatible_builtins_def match_class_and_instance_against_type_def match_from_mro_def

lemma match_value_against_Union:
  "\<not> formal E (data value) \<Longrightarrow>
   matcher (Suc n) E (match_value_against_type_call value (abstract_Union members) subst view)
     = first_match (\<lambda>t. matcher n E (match_value_against_type_call value t subst view)) members"
  by (simp add: match_value_against_type_def isinstance_Class_def isinstance_Union_def
        options_def)

text \<open>
  Claim C1. A value that is not formal is matched against a union by trying the members in
  their order, each with the substitution the call was given. When the members before a
  member \<open>t\<close> all fail and \<open>t\<close> matches, the result is the substitution \<open>t\<close> has produced,
  whatever the members after \<open>t\<close> are; when all members fail, the match fails. Conversely a
  match against the union that succeeds returns what the first member that matches has
  produced.
\<close>

theorem match_value_against_Union_first_member:
  assumes "\<not> formal E (data value)"
  shows "(members = pre @ t # post
            \<and> none_match (\<lambda>t. matcher n E (match_value_against_type_call value t subst view))
                 pre h = Some h1
            \<and> matcher n E (match_value_against_type_call value t subst view) h1
                 = (Inr (Some s), h2)
          \<longrightarrow> matcher (Suc n) E
                (match_value_against_type_call value (abstract_Union members) subst view) h
                = (Inr (Some s), h2))
       \<and> (none_match (\<lambda>t. matcher n E (match_value_against_type_call value t subst view))
             members h = Some h'
          \<longleftrightarrow> matcher (Suc n) E
                (match_value_against_type_call value (abstract_Union members) subst view) h
                = (Inr None, h'))
       \<and> (matcher (Suc n) E
             (match_value_against_type_call value (abstract_Union members) subst view) h
             = (Inr (Some s'), h'')
          \<longrightarrow> (\<exists>pre t post h1. members = pre @ t # post
                \<and> none_match (\<lambda>t. matcher n E (match_value_against_type_call value t subst view))
                     pre h = Some h1
                \<and> matcher n E (match_value_against_type_call value t subst view) h1
                     = (Inr (Some s'), h'')))"
  using first_match_hit [of "\<lambda>t. matcher n E (match_value_against_type_call value t subst view)"
          pre h h1 t s h2 post]
        first_match_none_iff [of "\<lambda>t. matcher n E (match_value_against_type_call value t subst view)"
          members h h']
        first_match_hit_conv [of "\<lambda>t. matcher n E (match_value_against_type_call value t subst view)"
          members h s' h'']
  by (simp only: match_value_against_Union [OF assms]) blast


theorem match_value_against_Union_first_member_witness:
  "\<not> formal env0 (data (Binding (Module ''m'') (Variable 7 [Module ''m'']) 0))
   \<and> matcher (Suc (Suc (Suc 0))) env0
        (match_value_against_type_call (Binding (Module ''m'') (Variable 7 [Module ''m'']) 0)
           (abstract_Union [Class 1 ''__builtin__.int'' None [],
                            Class 2 ''__builtin__.object'' None [], TypeParameter ''T''])
           (Some 0) []) heap0
      = (Inr (Some 0), heap0)
   \<and> fst (matcher (Suc (Suc 0)) env0
        (match_value_against_type_call (Binding (Module ''m'') (Variable 7 [Module ''m'']) 0)
           (TypeParameter ''T'') (Some 0) []) heap0)
      = Inr (Some 1)"
proof -
  let ?b = "Binding (Module ''m'') (Variable 7 [Module ''m'']) 0"
  let ?f = "\<lambda>t. matcher (Suc (Suc 0)) env0 (match_value_against_type_call ?b t (Some 0) [])"
  have a: "\<not> formal env0 (data ?b)" by (simp add: env0_def)
  have 1: "?f (Class 1 ''__builtin__.int'' None []) heap0 = (Inr None, heap0)"
    by (simp add: method_defs isinstance_defs run_defs env0_def)
  have 2: "?f (Class 2 ''__builtin__.object'' None []) heap0 = (Inr (Some 0), heap0)"
    by (simp add: method_defs isinstance_defs run_defs env0_def)
  have 3: "fst (?f (TypeParameter ''T'') heap0) = Inr (Some 1)"
    by (simp add: method_defs isinstance_defs attribute_defs run_defs env0_def heap0_def)
  have p: "none_match ?f [Class 1 ''__builtin__.int'' None []] heap0 = Some heap0"
    by (simp only: none_match.simps 1) simp
  from match_value_against_Union_first_member [OF a,
      where members = "[Class 1 ''__builtin__.int'' None [],
                        Class 2 ''__builtin__.object'' None [], TypeParameter ''T'']"
        and pre = "[Class 1 ''__builtin__.int'' None []]"
        and t = "Class 2 ''__builtin__.object'' None []"
        and post = "[TypeParameter ''T'']" and n = "Suc (Suc 0)" and subst = "Some 0"
        and view = "[]" and h = heap0 and ?h1.0 = heap0 and s = 0 and ?h2.0 = heap0,
      THEN conjunct1] p 2
  have "matcher (Suc (Suc (Suc 0))) env0
        (match_value_against_type_call ?b
           (abstract_Union [Class 1 ''__builtin__.int'' None [],
                            Class 2 ''__builtin__.object'' None [], TypeParameter ''T''])
           (Some 0) []) heap0
      = (Inr (Some 0), heap0)"
    by simp
  with a 3 show ?thesis by blast
qed

end
